theory Spec2Isabelle
  imports Complex_Main "HOL-Library.Product_Lexorder"
begin

section \<open>The catalog store (database/manager.ts, database/schema.sql)\<close>

text \<open>
  Conventions of the embedding.
  \<^item> A TypeScript optional field \<open>f?: T\<close> is a field of type \<open>T option\<close>; \<open>None\<close> is
    \<open>undefined\<close>. A nullable SQL column is an \<open>option\<close> as well; \<open>None\<close> is \<open>NULL\<close>.
  \<^item> JavaScript numbers are idealised as mathematical reals (\<open>real\<close>); row ids and
    counters, which only ever hold natural numbers, are \<open>nat\<close>.
  \<^item> Strings are \<open>string\<close> (lists of 8-bit characters).
  \<^item> \<open>Date.now()\<close> is the field \<open>now_ms\<close> of the world state (milliseconds); SQLite's
    \<open>CURRENT_TIMESTAMP\<close> has a resolution of one second and is modelled as the number
    of whole seconds \<open>now_ms div 1000\<close>.
  \<^item> A thrown JavaScript error is a value \<open>Error msg\<close>; a function that may throw returns
    \<open>error + 'a\<close> with \<open>Inl\<close> for the error.
\<close>

type_synonym timestamp = int

datatype error = Error (message: string)

text \<open>Values of type \<open>any\<close> that went through \<open>JSON.stringify\<close>/\<open>JSON.parse\<close>.\<close>

datatype json =
    JNull
  | JBool bool
  | JNum real
  | JStr string
  | JArr "json list"
  | JObj "(string \<times> json) list"

text \<open>\<open>interface AITool\<close>; the field \<open>id\<close> is called \<open>id'\<close> here.\<close>

record AITool =
  id' :: "nat option"
  name :: string
  description :: "string option"
  url :: "string option"
  source :: string
  category :: "string option"
  subcategory :: "string option"
  capabilities :: "string list option"
  api_available :: "bool option"
  open_source :: "bool option"
  pricing_model :: "string option"
  first_discovered :: "timestamp option"
  last_updated :: "timestamp option"
  popularity_score :: "real option"
  relevance_score :: "real option"
  metadata :: "(string \<times> json) list option"

text \<open>\<open>Partial<AITool>\<close>: the same fields, every one of them optional.\<close>

record PartialAITool =
  p_id :: "nat option"
  p_name :: "string option"
  p_description :: "string option"
  p_url :: "string option"
  p_source :: "string option"
  p_category :: "string option"
  p_subcategory :: "string option"
  p_capabilities :: "string list option"
  p_api_available :: "bool option"
  p_open_source :: "bool option"
  p_pricing_model :: "string option"
  p_first_discovered :: "timestamp option"
  p_last_updated :: "timestamp option"
  p_popularity_score :: "real option"
  p_relevance_score :: "real option"
  p_metadata :: "(string \<times> json) list option"

text \<open>An \<open>AITool\<close> passed where a \<open>Partial<AITool>\<close> is expected.\<close>

definition as_partial :: "AITool \<Rightarrow> PartialAITool" where
  "as_partial t =
     \<lparr> p_id = id' t, p_name = Some (name t), p_description = description t, p_url = url t,
       p_source = Some (source t), p_category = category t, p_subcategory = subcategory t,
       p_capabilities = capabilities t, p_api_available = api_available t,
       p_open_source = open_source t, p_pricing_model = pricing_model t,
       p_first_discovered = first_discovered t, p_last_updated = last_updated t,
       p_popularity_score = popularity_score t, p_relevance_score = relevance_score t,
       p_metadata = metadata t \<rparr>"

text \<open>
  A row of table \<open>ai_tools\<close>. The columns \<open>capabilities\<close> and \<open>metadata\<close> hold JSON text;
  the row keeps the value that text denotes. The table declares \<open>id INTEGER PRIMARY KEY
  AUTOINCREMENT\<close>, \<open>name\<close> and \<open>source\<close> \<open>NOT NULL\<close>, and no constraint on \<open>url\<close>.
\<close>

record tool_row =
  col_id :: nat
  col_name :: string
  col_description :: "string option"
  col_url :: "string option"
  col_source :: string
  col_category :: "string option"
  col_subcategory :: "string option"
  col_capabilities :: "string list"
  col_api_available :: bool
  col_open_source :: bool
  col_pricing_model :: "string option"
  col_first_discovered :: timestamp
  col_last_updated :: timestamp
  col_popularity_score :: real
  col_relevance_score :: real
  col_metadata :: "(string \<times> json) list"

datatype run_status = success | partial | failed

text \<open>\<open>interface SurveyRun\<close> and a row of table \<open>survey_runs\<close>.\<close>

record SurveyRun =
  run_source :: string
  run_items_discovered :: "nat option"
  run_items_updated :: "nat option"
  run_status :: run_status
  run_error_log :: "string option"
  run_duration_seconds :: "real option"

record run_row =
  sr_id :: nat
  sr_run_time :: timestamp
  sr_source :: string
  sr_items_discovered :: nat
  sr_items_updated :: nat
  sr_status :: run_status
  sr_error_log :: "string option"
  sr_duration_seconds :: "real option"


record project_row =
  pr_id :: nat
  pr_name :: string
  pr_path :: "string option"
  pr_description :: "string option"
  pr_tech_stack :: "string list"
  pr_ai_needs :: "string list"
  pr_last_analyzed :: timestamp

datatype rec_status = pending | accepted | rejected | dismissed

text \<open>
  \<open>interface Recommendation\<close> and a row of table \<open>recommendations\<close>. The field
  \<open>tool_id\<close> is filled from \<open>tool.id!\<close>, which is \<open>undefined\<close> for a tool without id.
\<close>

record Recommendation =
  rec_id :: "nat option"
  tool_id :: "nat option"
  user_project_id :: "nat option"
  rec_relevance_score :: real
  reason :: string
  rec_status :: "rec_status option"
  created_at :: "timestamp option"
  tool :: "AITool option"

record rec_row =
  rr_id :: nat
  rr_tool_id :: "nat option"
  rr_user_project_id :: "nat option"
  rr_relevance_score :: real
  rr_reason :: string
  rr_status :: rec_status
  rr_created_at :: timestamp

text \<open>
  The state a \<open>DatabaseManager\<close> works on: the wall clock and the four tables the core
  uses, each with its \<open>AUTOINCREMENT\<close> counter (the largest row id handed out so far).
  Rows are kept in insertion order, which is the order of their row ids.
\<close>

record world =
  now_ms :: int
  ai_tools :: "tool_row list"
  ai_tools_seq :: nat
  survey_runs :: "run_row list"
  survey_runs_seq :: nat
  user_projects :: "project_row list"
  user_projects_seq :: nat
  recommendations :: "rec_row list"
  recommendations_seq :: nat

definition CURRENT_TIMESTAMP :: "world \<Rightarrow> timestamp" where
  "CURRENT_TIMESTAMP w = now_ms w div 1000"

text \<open>A freshly initialised database at wall-clock time \<open>t\<close>.\<close>

definition empty_world :: "int \<Rightarrow> world" where
  "empty_world t =
     \<lparr> now_ms = t, ai_tools = [], ai_tools_seq = 0, survey_runs = [], survey_runs_seq = 0,
       user_projects = [], user_projects_seq = 0, recommendations = [],
       recommendations_seq = 0 \<rparr>"

text \<open>\<open>x || d\<close> on an optional value whose falsy inhabitant is \<open>z\<close>.\<close>

definition or_default :: "'a \<Rightarrow> 'a \<Rightarrow> 'a option \<Rightarrow> 'a" where
  "or_default z d x = (case x of None \<Rightarrow> d | Some v \<Rightarrow> if v = z then d else v)"

text \<open>
  \<open>insertTool\<close>: a plain \<open>INSERT\<close>. The columns \<open>first_discovered\<close> and \<open>last_updated\<close> are
  not listed in the statement and take their default \<open>CURRENT_TIMESTAMP\<close>.
\<close>

definition insertTool :: "AITool \<Rightarrow> world \<Rightarrow> nat \<times> world" where
  "insertTool t w =
     (let new_id = Suc (ai_tools_seq w);
          row = \<lparr> col_id = new_id, col_name = name t, col_description = description t,
                  col_url = url t, col_source = source t, col_category = category t,
                  col_subcategory = subcategory t,
                  col_capabilities = (case capabilities t of None \<Rightarrow> [] | Some cs \<Rightarrow> cs),
                  col_api_available = (api_available t = Some True),
                  col_open_source = (open_source t = Some True),
                  col_pricing_model = pricing_model t,
                  col_first_discovered = CURRENT_TIMESTAMP w,
                  col_last_updated = CURRENT_TIMESTAMP w,
                  col_popularity_score = or_default 0 0 (popularity_score t),
                  col_relevance_score = or_default 0 0 (relevance_score t),
                  col_metadata = (case metadata t of None \<Rightarrow> [] | Some m \<Rightarrow> m) \<rparr>
      in (new_id, w\<lparr>ai_tools := ai_tools w @ [row], ai_tools_seq := new_id\<rparr>))"

text \<open>
  \<open>updateTool\<close>: the \<open>SET\<close> list holds the six columns the function tests for, each only
  when the partial tool defines it, and always \<open>last_updated = CURRENT_TIMESTAMP\<close>.
\<close>

definition set_columns :: "timestamp \<Rightarrow> PartialAITool \<Rightarrow> tool_row \<Rightarrow> tool_row" where
  "set_columns now p r =
     r\<lparr> col_name := (case p_name p of None \<Rightarrow> col_name r | Some v \<Rightarrow> v),
        col_description := (case p_description p of None \<Rightarrow> col_description r | Some v \<Rightarrow> Some v),
        col_url := (case p_url p of None \<Rightarrow> col_url r | Some v \<Rightarrow> Some v),
        col_category := (case p_category p of None \<Rightarrow> col_category r | Some v \<Rightarrow> Some v),
        col_capabilities := (case p_capabilities p of None \<Rightarrow> col_capabilities r | Some v \<Rightarrow> v),
        col_popularity_score :=
          (case p_popularity_score p of None \<Rightarrow> col_popularity_score r | Some v \<Rightarrow> v),
        col_last_updated := now \<rparr>"

definition updateTool :: "nat \<Rightarrow> PartialAITool \<Rightarrow> world \<Rightarrow> world" where
  "updateTool i p w =
     w\<lparr>ai_tools :=
         map (\<lambda>r. if col_id r = i then set_columns (CURRENT_TIMESTAMP w) p r else r) (ai_tools w)\<rparr>"

definition parseToolRow :: "tool_row \<Rightarrow> AITool" where
  "parseToolRow r =
     \<lparr> id' = Some (col_id r), name = col_name r, description = col_description r,
       url = col_url r, source = col_source r, category = col_category r,
       subcategory = col_subcategory r, capabilities = Some (col_capabilities r),
       api_available = Some (col_api_available r), open_source = Some (col_open_source r),
       pricing_model = col_pricing_model r,
       first_discovered = Some (col_first_discovered r),
       last_updated = Some (col_last_updated r),
       popularity_score = Some (col_popularity_score r),
       relevance_score = Some (col_relevance_score r),
       metadata = Some (col_metadata r) \<rparr>"

text \<open>\<open>getToolByUrl\<close>: the first row of \<open>SELECT * FROM ai_tools WHERE url = ?\<close>.\<close>

definition getToolByUrl :: "string \<Rightarrow> world \<Rightarrow> AITool option" where
  "getToolByUrl u w = map_option parseToolRow (find (\<lambda>r. col_url r = Some u) (ai_tools w))"

text \<open>The rows of \<open>ai_tools\<close> stored under a url.\<close>

definition rows_with_url :: "string \<Rightarrow> world \<Rightarrow> tool_row list" where
  "rows_with_url u w = filter (\<lambda>r. col_url r = Some u) (ai_tools w)"

text \<open>
  What the schema guarantees of \<open>ai_tools\<close> in every state: row ids are unique
  (\<open>PRIMARY KEY\<close>) and none exceeds the \<open>AUTOINCREMENT\<close> counter.
\<close>

definition primary_key_ok :: "world \<Rightarrow> bool" where
  "primary_key_ok w \<longleftrightarrow>
     distinct (map col_id (ai_tools w)) \<and> list_all (\<lambda>r. col_id r \<le> ai_tools_seq w) (ai_tools w)"


section \<open>The base adapter (surveyors/baseSurveyor.ts)\<close>

subsection \<open>\<open>fetchWithRetry\<close>\<close>

text \<open>
  A \<open>Response\<close> as far as \<open>fetchWithRetry\<close> looks at it; \<open>retry_after\<close> is the value of
  \<open>response.headers.get('Retry-After')\<close>, \<open>None\<close> for \<open>null\<close>.
\<close>

record response =
  status :: nat
  statusText :: string
  retry_after :: "string option"

definition ok :: "response \<Rightarrow> bool" where
  "ok r \<longleftrightarrow> 200 \<le> status r \<and> status r \<le> 299"

text \<open>What one call of \<open>fetch\<close> does: it rejects with an error or resolves to a response.\<close>

datatype fetch_outcome = Rejected error | Resolved response

text \<open>
  What a call of \<open>fetchWithRetry\<close> does to the outside, in order: the requests it issues
  (numbered by the loop counter) and the calls of \<open>sleep\<close>, with their argument in
  milliseconds (\<open>None\<close> is \<open>NaN\<close>).
\<close>

datatype event = Fetch nat | Sleep "int option"

fun char_index :: "char \<Rightarrow> string \<Rightarrow> nat option" where
  "char_index c [] = None"
| "char_index c (d # ds) = (if c = d then Some 0 else map_option Suc (char_index c ds))"

text \<open>The value of a character as a digit of the given radix (10 or 16).\<close>

definition digit_value :: "nat \<Rightarrow> char \<Rightarrow> nat option" where
  "digit_value radix c =
     (case char_index c ''0123456789abcdef'' of
        Some k \<Rightarrow> if k < radix then Some k else None
      | None \<Rightarrow>
          (case char_index c ''ABCDEF'' of
             Some k \<Rightarrow> if k + 10 < radix then Some (k + 10) else None
           | None \<Rightarrow> None))"

definition is_space :: "char \<Rightarrow> bool" where
  "is_space c \<longleftrightarrow> c \<in> set [CHR '' '', CHR 0x09, CHR 0x0A, CHR 0x0B, CHR 0x0C, CHR 0x0D]"

fun digits_value :: "nat \<Rightarrow> nat \<Rightarrow> string \<Rightarrow> nat" where
  "digits_value radix acc [] = acc"
| "digits_value radix acc (c # cs) =
     (case digit_value radix c of
        Some k \<Rightarrow> digits_value radix (acc * radix + k) cs
      | None \<Rightarrow> acc)"

text \<open>
  \<open>parseInt(s)\<close> without a radix argument: leading (ASCII) white space is skipped, a sign is
  read, a prefix \<open>0x\<close> or \<open>0X\<close> selects radix 16, then the longest run of digits is
  read; with no digit the result is \<open>NaN\<close> (\<open>None\<close>).
\<close>

definition parseInt :: "string \<Rightarrow> int option" where
  "parseInt s =
     (let s1 = dropWhile is_space s;
          (sign, s2) = (case s1 of
                          c # cs \<Rightarrow> if c = CHR ''-'' then (- 1, cs)
                                    else if c = CHR ''+'' then (1, cs) else (1, s1)
                        | [] \<Rightarrow> (1 :: int, s1));
          (radix, s3) = (if take 2 s2 = ''0x'' \<or> take 2 s2 = ''0X''
                         then (16 :: nat, drop 2 s2) else (10, s2))
      in (case s3 of
            [] \<Rightarrow> None
          | c # cs \<Rightarrow> (case digit_value radix c of
                        None \<Rightarrow> None
                      | Some k \<Rightarrow> Some (sign * int (digits_value radix 0 s3)))))"

text \<open>Decimal notation of a natural number, as a template literal prints it.\<close>

fun show_nat :: "nat \<Rightarrow> string" where
  "show_nat n =
     (if n < 10 then [''0123456789'' ! n]
      else show_nat (n div 10) @ [''0123456789'' ! (n mod 10)])"

declare show_nat.simps [simp del]

definition prepend :: "event list \<Rightarrow> event list \<times> 'a \<Rightarrow> event list \<times> 'a" where
  "prepend evs r = (evs @ fst r, snd r)"

text \<open>The argument of \<open>sleep\<close> after a 429 response in iteration \<open>i\<close>.\<close>

definition rate_limit_wait :: "nat \<Rightarrow> response \<Rightarrow> int option" where
  "rate_limit_wait i r =
     (case retry_after r of
        Some h \<Rightarrow> if h \<noteq> [] then map_option (\<lambda>n. n * 1000) (parseInt h)
                  else Some (2 ^ i * 1000)
      | None \<Rightarrow> Some (2 ^ i * 1000))"

text \<open>The events of the \<open>catch\<close> block in iteration \<open>i\<close>.\<close>

definition backoff :: "nat \<Rightarrow> nat \<Rightarrow> event list" where
  "backoff maxRetries i = (if i < maxRetries - 1 then [Sleep (Some (2 ^ i * 1000))] else [])"

text \<open>
  The \<open>for\<close> loop of \<open>fetchWithRetry\<close> from counter \<open>i\<close> on, with the current value
  of \<open>lastError\<close> (\<open>None\<close> is \<open>null\<close>). The network is a function from the loop counter
  to what the request of that iteration does.
\<close>

function fetch_loop ::
  "(nat \<Rightarrow> fetch_outcome) \<Rightarrow> nat \<Rightarrow> nat \<Rightarrow> error option \<Rightarrow> event list \<times> (error + response)"
where
  "fetch_loop net maxRetries i lastError =
     (if i < maxRetries then
        (case net i of
           Resolved r \<Rightarrow>
             if ok r then ([Fetch i], Inr r)
             else if status r = 429 then
               prepend [Fetch i, Sleep (rate_limit_wait i r)]
                 (fetch_loop net maxRetries (Suc i) lastError)
             else
               prepend (Fetch i # backoff maxRetries i)
                 (fetch_loop net maxRetries (Suc i)
                    (Some (Error (''HTTP '' @ show_nat (status r) @ '': '' @ statusText r))))
         | Rejected e \<Rightarrow>
             prepend (Fetch i # backoff maxRetries i)
               (fetch_loop net maxRetries (Suc i) (Some e)))
      else
        ([], Inl (case lastError of
                    Some e \<Rightarrow> e
                  | None \<Rightarrow> Error ''Unknown error during fetch'')))"
  by pat_completeness auto
termination
  by (relation "measure (\<lambda>(net, maxRetries, i, lastError). maxRetries - i)") auto

declare fetch_loop.simps [simp del]

definition fetchWithRetry ::
  "(nat \<Rightarrow> fetch_outcome) \<Rightarrow> nat \<Rightarrow> event list \<times> (error + response)" where
  "fetchWithRetry net maxRetries = fetch_loop net maxRetries 0 None"

text \<open>The requests issued, and whether an iteration failed for a reason other than 429.\<close>

definition attempts :: "event list \<Rightarrow> nat list" where
  "attempts evs = concat (map (\<lambda>e. case e of Fetch i \<Rightarrow> [i] | Sleep _ \<Rightarrow> []) evs)"


definition succeeds :: "fetch_outcome \<Rightarrow> bool" where
  "succeeds out = (case out of Resolved r \<Rightarrow> ok r | Rejected _ \<Rightarrow> False)"

text \<open>The error an iteration's \<open>catch\<close> block stores in \<open>lastError\<close>, if it gets there.\<close>

definition thrown :: "fetch_outcome \<Rightarrow> error option" where
  "thrown out =
     (case out of
        Rejected e \<Rightarrow> Some e
      | Resolved r \<Rightarrow>
          if ok r \<or> status r = 429 then None
          else Some (Error (''HTTP '' @ show_nat (status r) @ '': '' @ statusText r)))"


subsection \<open>\<open>calculatePopularityScore\<close>\<close>








subsection \<open>\<open>survey\<close> and \<open>run\<close>\<close>

record stats =
  st_discovered :: nat
  st_updated :: nat
  st_errors :: nat

record SurveyResult =
  tools :: "AITool list"
  stats :: stats
  errors :: "string list"

text \<open>
  \<open>sleep(ms)\<close>, and more generally any \<open>await\<close> during which \<open>ms\<close> milliseconds pass:
  the timer is taken to fire exactly on time, and code that does not wait takes no time.
\<close>

definition sleep :: "int \<Rightarrow> world \<Rightarrow> world" where
  "sleep ms w = w\<lparr>now_ms := now_ms w + ms\<rparr>"

text \<open>The local variables \<open>tools\<close>, \<open>errors\<close>, \<open>discovered\<close>, \<open>updated\<close> of a \<open>survey\<close> method.\<close>

record survey_vars =
  v_tools :: "AITool list"
  v_errors :: "string list"
  v_discovered :: nat
  v_updated :: nat

definition initial_vars :: survey_vars where
  "initial_vars = \<lparr> v_tools = [], v_errors = [], v_discovered = 0, v_updated = 0 \<rparr>"

definition result_of :: "survey_vars \<Rightarrow> SurveyResult" where
  "result_of v =
     \<lparr> tools = v_tools v,
       stats = \<lparr> st_discovered = v_discovered v, st_updated = v_updated v,
                 st_errors = length (v_errors v) \<rparr>,
       errors = v_errors v \<rparr>"

text \<open>
  The body of every adapter's loop over the tools it fetched:
  \<^verbatim>\<open>const existing = this.db.getToolByUrl(repo.url!);
if (existing) { this.db.updateTool(existing.id!, repo); updated++; }
else { this.db.insertTool(repo); discovered++; }
tools.push(repo);\<close>
  A url that is \<open>undefined\<close> is bound as \<open>NULL\<close>, which no row equals; an id that is
  \<open>undefined\<close> likewise selects no row.
\<close>

definition store_tool :: "AITool \<Rightarrow> survey_vars \<times> world \<Rightarrow> survey_vars \<times> world" where
  "store_tool t = (\<lambda>(v, w).
     (case (case url t of None \<Rightarrow> None | Some u \<Rightarrow> getToolByUrl u w) of
        Some existing \<Rightarrow>
          (v\<lparr>v_tools := v_tools v @ [t], v_updated := Suc (v_updated v)\<rparr>,
           (case id' existing of
              Some i \<Rightarrow> updateTool i (as_partial t) w
            | None \<Rightarrow> w))
      | None \<Rightarrow>
          (v\<lparr>v_tools := v_tools v @ [t], v_discovered := Suc (v_discovered v)\<rparr>,
           snd (insertTool t w))))"

fun store_tools :: "AITool list \<Rightarrow> survey_vars \<times> world \<Rightarrow> survey_vars \<times> world" where
  "store_tools [] vw = vw"
| "store_tools (t # ts) vw = store_tools ts (store_tool t vw)"

text \<open>
  What the awaited search of one query dimension does: the milliseconds it takes, and
  the tools it returns or the error it throws.
\<close>

type_synonym search = "int \<times> (error + AITool list)"

text \<open>
  The loop over the query dimensions shared by the GitHub, YouTube and arXiv adapters,
  which differ in the courtesy delay, the list of dimensions and the search:
  \<^verbatim>\<open>for (const topic of this.topics) {
  try { await this.sleep(1000); const repos = await this.searchRepositories(topic);
        for (const repo of repos) { ... } }
  catch (error) { errors.push(`${topic}: ${error.message}`); } }\<close>
\<close>

fun survey_loop ::
  "int \<Rightarrow> (string \<Rightarrow> search) \<Rightarrow> string list \<Rightarrow> survey_vars \<times> world \<Rightarrow> survey_vars \<times> world"
where
  "survey_loop delay search [] vw = vw"
| "survey_loop delay search (topic # topics) vw =
     survey_loop delay search topics
       (let v = fst vw;
            w = sleep (fst (search topic)) (sleep delay (snd vw))
        in (case snd (search topic) of
              Inr found \<Rightarrow> store_tools found (v, w)
            | Inl e \<Rightarrow> (v\<lparr>v_errors := v_errors v @ [topic @ '': '' @ message e]\<rparr>, w)))"

definition GitHub_topics :: "string list" where
  "GitHub_topics =
     [''artificial-intelligence'', ''machine-learning'', ''deep-learning'', ''llm'',
      ''large-language-model'', ''ai-agents'', ''computer-vision'', ''nlp'',
      ''natural-language-processing'']"

definition GitHubSurveyor_survey :: "(string \<Rightarrow> search) \<Rightarrow> world \<Rightarrow> SurveyResult \<times> world" where
  "GitHubSurveyor_survey searchRepositories w =
     (let vw = survey_loop 1000 searchRepositories GitHub_topics (initial_vars, w)
      in (result_of (fst vw), snd vw))"

definition ArXiv_categories :: "string list" where
  "ArXiv_categories = [''cs.AI'', ''cs.LG'', ''cs.CL'', ''cs.CV'', ''cs.RO'']"

definition ArXivSurveyor_survey :: "(string \<Rightarrow> search) \<Rightarrow> world \<Rightarrow> SurveyResult \<times> world" where
  "ArXivSurveyor_survey searchPapers w =
     (let vw = survey_loop 3000 searchPapers ArXiv_categories (initial_vars, w)
      in (result_of (fst vw), snd vw))"

definition YouTube_searchQueries :: "string list" where
  "YouTube_searchQueries =
     [''AI tools new'', ''machine learning tools'', ''LLM applications'',
      ''AI agents tutorial'', ''latest AI developments'']"

text \<open>\<open>apiKey\<close> is \<open>process.env.YOUTUBE_API_KEY\<close>; an empty string is falsy.\<close>

definition YouTubeSurveyor_survey ::
  "string option \<Rightarrow> (string \<Rightarrow> string \<Rightarrow> search) \<Rightarrow> world \<Rightarrow> SurveyResult \<times> world" where
  "YouTubeSurveyor_survey apiKey searchVideos w =
     (case apiKey of
        Some key \<Rightarrow>
          if key = [] then
            (\<lparr> tools = [], stats = \<lparr> st_discovered = 0, st_updated = 0, st_errors = 1 \<rparr>,
               errors = [''YouTube API key not configured''] \<rparr>, w)
          else
            (let vw = survey_loop 1000 (\<lambda>query. searchVideos query key) YouTube_searchQueries
                        (initial_vars, w)
             in (result_of (fst vw), snd vw))
      | None \<Rightarrow>
          (\<lparr> tools = [], stats = \<lparr> st_discovered = 0, st_updated = 0, st_errors = 1 \<rparr>,
             errors = [''YouTube API key not configured''] \<rparr>, w))"

text \<open>
  The HuggingFace adapter has two query dimensions, trending models and trending
  spaces, inside one \<open>try\<close> block:
  \<^verbatim>\<open>try { const models = await this.surveyModels(); for (const model of models) { ... }
      const spaces = await this.surveySpaces(); for (const space of spaces) { ... } }
catch (error) { errors.push(error.message); }\<close>
\<close>

definition HuggingFaceSurveyor_survey :: "search \<Rightarrow> search \<Rightarrow> world \<Rightarrow> SurveyResult \<times> world" where
  "HuggingFaceSurveyor_survey surveyModels surveySpaces w =
     (let v0 = initial_vars;
          w1 = sleep (fst surveyModels) w;
          vw = (case snd surveyModels of
                  Inl e \<Rightarrow> (v0\<lparr>v_errors := v_errors v0 @ [message e]\<rparr>, w1)
                | Inr models \<Rightarrow>
                    (let vw2 = store_tools models (v0, w1);
                         v2 = fst vw2;
                         w3 = sleep (fst surveySpaces) (snd vw2)
                     in (case snd surveySpaces of
                           Inl e \<Rightarrow> (v2\<lparr>v_errors := v_errors v2 @ [message e]\<rparr>, w3)
                         | Inr spaces \<Rightarrow> store_tools spaces (v2, w3))))
      in (result_of (fst vw), snd vw))"

text \<open>\<open>logSurveyRun\<close>: a plain \<open>INSERT\<close>; \<open>run_time\<close> takes its default.\<close>

definition logSurveyRun :: "SurveyRun \<Rightarrow> world \<Rightarrow> nat \<times> world" where
  "logSurveyRun r w =
     (let new_id = Suc (survey_runs_seq w);
          row = \<lparr> sr_id = new_id, sr_run_time = CURRENT_TIMESTAMP w, sr_source = run_source r,
                  sr_items_discovered = or_default 0 0 (run_items_discovered r),
                  sr_items_updated = or_default 0 0 (run_items_updated r),
                  sr_status = run_status r, sr_error_log = run_error_log r,
                  sr_duration_seconds = run_duration_seconds r \<rparr>
      in (new_id, w\<lparr>survey_runs := survey_runs w @ [row], survey_runs_seq := new_id\<rparr>))"

text \<open>\<open>xs.join(sep)\<close>.\<close>

fun join :: "string \<Rightarrow> string list \<Rightarrow> string" where
  "join sep [] = []"
| "join sep [x] = x"
| "join sep (x # y # ys) = x @ sep @ join sep (y # ys)"

text \<open>
  An adapter object: its \<open>sourceName\<close> and its \<open>survey\<close> method, which works on the
  world and returns a result or throws.
\<close>

record surveyor =
  sourceName :: string
  survey :: "world \<Rightarrow> (error + SurveyResult) \<times> world"

text \<open>\<open>BaseSurveyor.run\<close>; \<open>Inl e\<close> is the error it rethrows.\<close>

definition run :: "surveyor \<Rightarrow> world \<Rightarrow> (error + unit) \<times> world" where
  "run s w =
     (let startTime = now_ms w;
          outcome = fst (survey s w);
          w1 = snd (survey s w);
          duration = real_of_int (now_ms w1 - startTime) / 1000
      in (case outcome of
            Inr result \<Rightarrow>
              (Inr (),
               snd (logSurveyRun
                      \<lparr> run_source = sourceName s,
                        run_items_discovered = Some (st_discovered (stats result)),
                        run_items_updated = Some (st_updated (stats result)),
                        run_status = (if st_errors (stats result) > 0 then partial else success),
                        run_error_log = (if length (errors result) > 0
                                         then Some (join [CHR 0x0A] (errors result)) else None),
                        run_duration_seconds = Some duration \<rparr> w1))
          | Inl e \<Rightarrow>
              (Inl e,
               snd (logSurveyRun
                      \<lparr> run_source = sourceName s, run_items_discovered = Some 0,
                        run_items_updated = Some 0, run_status = failed,
                        run_error_log = Some (message e),
                        run_duration_seconds = Some duration \<rparr> w1))))"

text \<open>
  An adapter object built from a \<open>survey\<close> method that catches its own errors, as
  \<open>new GitHubSurveyor(this.db, 'github')\<close> is.
\<close>

definition adapter :: "string \<Rightarrow> (world \<Rightarrow> SurveyResult \<times> world) \<Rightarrow> surveyor" where
  "adapter n f = \<lparr> sourceName = n, survey = (\<lambda>w. (Inr (fst (f w)), snd (f w))) \<rparr>"

section \<open>The orchestrator (orchestrator.ts)\<close>






text \<open>An adapter that leaves the run log to \<open>run\<close>, as every adapter of the repository does.\<close>

definition keeps_run_log :: "surveyor \<Rightarrow> bool" where
  "keeps_run_log s \<longleftrightarrow> (\<forall>w. survey_runs (snd (survey s w)) = survey_runs w)"


section \<open>The recommendation engine (personalization/engine.ts)\<close>









subsection \<open>\<open>calculateRelevance\<close>\<close>









subsection \<open>\<open>generateRecommendations\<close>\<close>




section \<open>Notions used in the statements\<close>


text \<open>
  The errors thrown inside the \<open>try\<close> block by the requests \<open>i, \<dots>, m - 1\<close>, in order,
  and the error \<open>fetchWithRetry\<close> throws after the loop when these were thrown and
  \<open>lastError\<close> was \<open>l\<close> before.
\<close>

definition thrown_errors :: "(nat \<Rightarrow> fetch_outcome) \<Rightarrow> nat \<Rightarrow> nat \<Rightarrow> error list" where
  "thrown_errors net i m = List.map_filter (\<lambda>j. thrown (net j)) [i..<m]"

definition surfaced :: "error list \<Rightarrow> error option \<Rightarrow> error" where
  "surfaced es l =
     (if es = [] then (case l of Some e \<Rightarrow> e | None \<Rightarrow> Error ''Unknown error during fetch'')
      else last es)"

text \<open>
  For a list of query dimensions: the tools of the dimensions whose search returns, the
  messages for the dimensions whose search throws, and those dimensions themselves.
\<close>

definition found_tools :: "(string \<Rightarrow> search) \<Rightarrow> string list \<Rightarrow> AITool list" where
  "found_tools search topics =
     concat (map (\<lambda>topic. case snd (search topic) of Inr found \<Rightarrow> found | Inl _ \<Rightarrow> []) topics)"

definition failure_messages :: "(string \<Rightarrow> search) \<Rightarrow> string list \<Rightarrow> string list" where
  "failure_messages search topics =
     concat (map (\<lambda>topic. case snd (search topic) of
                             Inl e \<Rightarrow> [topic @ '': '' @ message e]
                           | Inr _ \<Rightarrow> []) topics)"

definition failed_topics :: "(string \<Rightarrow> search) \<Rightarrow> string list \<Rightarrow> string list" where
  "failed_topics search topics = filter (\<lambda>topic. isl (snd (search topic))) topics"

text \<open>
  The state of \<open>ai_tools\<close> that the adapters keep: row ids are unique and no url is
  stored twice.
\<close>

definition urls_unique :: "world \<Rightarrow> bool" where
  "urls_unique w \<longleftrightarrow> primary_key_ok w \<and> (\<forall>u. length (rows_with_url u w) \<le> 1)"

text \<open>A survey result whose \<open>stats.errors\<close> is the length of its \<open>errors\<close> list.\<close>

definition counts_its_errors :: "SurveyResult \<Rightarrow> bool" where
  "counts_its_errors r \<longleftrightarrow> st_errors (stats r) = length (errors r)"









section \<open>Example inputs\<close>

definition tool_A :: AITool where
  "tool_A =
     \<lparr> id' = None, name = ''A'', description = Some ''first description'',
       url = Some ''https://x/y'', source = ''github'', category = Some ''LLM'',
       subcategory = Some ''Python'', capabilities = Some [''text generation''],
       api_available = Some True, open_source = Some True, pricing_model = Some ''free'',
       first_discovered = None, last_updated = None, popularity_score = Some 20,
       relevance_score = None,
       metadata = Some [(''language'', JStr ''Python''), (''stars'', JNum 100)] \<rparr>"

definition tool_A' :: AITool where
  "tool_A' = tool_A\<lparr>description := Some ''second description'', subcategory := Some ''Rust''\<rparr>"


definition always_503 :: "nat \<Rightarrow> fetch_outcome" where
  "always_503 i =
     Resolved \<lparr> status = 503, statusText = ''Service Unavailable'', retry_after = None \<rparr>"

definition limited_once :: "nat \<Rightarrow> fetch_outcome" where
  "limited_once i =
     (if i = 0 then Resolved \<lparr> status = 429, statusText = ''Too Many Requests'',
                                retry_after = Some ''2'' \<rparr>
      else if i = 1 then Rejected (Error ''fetch failed'')
      else Resolved \<lparr> status = 200, statusText = ''OK'', retry_after = None \<rparr>)"

text \<open>Searches: one that throws, one that finds tool \<open>A\<close>; three dimensions of which
  the second throws; GitHub topics of which only \<open>llm\<close> finds a repository.\<close>

definition models_down :: search where
  "models_down = (250, Inl (Error ''HTTP 500: Internal Server Error''))"

definition one_space :: search where
  "one_space = (250, Inr [tool_A])"

definition models_then_spaces :: "string \<Rightarrow> search" where
  "models_then_spaces dimension = (if dimension = ''models'' then models_down else one_space)"

definition tool_B :: AITool where
  "tool_B = tool_A\<lparr>name := ''B'', url := Some ''https://x/z''\<rparr>"

definition second_of_three :: "string \<Rightarrow> search" where
  "second_of_three topic =
     (if topic = ''one'' then (250, Inr [tool_A])
      else if topic = ''two'' then (250, Inl (Error ''HTTP 500: Internal Server Error''))
      else (250, Inr [tool_B]))"

definition quiet_search :: "string \<Rightarrow> search" where
  "quiet_search topic = (if topic = ''llm'' then (250, Inr [tool_A]) else (250, Inr []))"

text \<open>An adapter whose \<open>survey\<close> throws, a GitHub adapter, and an orchestrator
  configured with the two.\<close>

definition broken_surveyor :: surveyor where
  "broken_surveyor =
     \<lparr> sourceName = ''huggingface'', survey = (\<lambda>w. (Inl (Error ''database is closed''), w)) \<rparr>"

definition github_quiet :: surveyor where
  "github_quiet = adapter ''github'' (GitHubSurveyor_survey quiet_search)"









section \<open>Properties of the catalog store\<close>




lemma updateTool_other_tables:
  "survey_runs (updateTool i p w) = survey_runs w"
  "now_ms (updateTool i p w) = now_ms w"
  "ai_tools_seq (updateTool i p w) = ai_tools_seq w"
  by (simp_all add: updateTool_def)




text \<open>
  Claim C10 (no uniqueness of \<open>url\<close> in the store). \<open>insertTool\<close> checks nothing and
  the table has no constraint on \<open>url\<close>: calling it for a tool and then for any tool of
  the same url appends two rows with different ids and that url, so a url stored
  \<open>n\<close> times before is stored \<open>n + 2\<close> times after. One row per url is kept only by
  callers that ask \<open>getToolByUrl\<close> first.
\<close>

theorem insertTool_twice:
  "\<exists>r1 r2.
     ai_tools (snd (insertTool (t2\<lparr>url := url t1\<rparr>) (snd (insertTool t1 w)))) =
       ai_tools w @ [r1, r2] \<and>
     col_id r1 = fst (insertTool t1 w) \<and>
     col_id r2 = fst (insertTool (t2\<lparr>url := url t1\<rparr>) (snd (insertTool t1 w))) \<and>
     col_id r1 \<noteq> col_id r2 \<and> col_url r1 = url t1 \<and> col_url r2 = url t1 \<and>
     length (rows_with_url u (snd (insertTool (t2\<lparr>url := url t1\<rparr>) (snd (insertTool t1 w))))) =
       length (rows_with_url u w) + (if url t1 = Some u then 2 else 0)"
  by (simp add: insertTool_def Let_def rows_with_url_def)

lemma find_filter: "find P xs = (case filter P xs of [] \<Rightarrow> None | x # _ \<Rightarrow> Some x)"
  by (induction xs) auto

lemma map_at_key:
  assumes "distinct (map k xs)" and "r \<in> set xs"
  shows "map (\<lambda>x. if k x = k r then f x else x) xs = map (\<lambda>x. if x = r then f r else x) xs"
proof (rule map_cong[OF refl])
  fix x assume "x \<in> set xs"
  with assms have "k x = k r \<longleftrightarrow> x = r"
    by (meson distinct_map inj_on_def)
  then show "(if k x = k r then f x else x) = (if x = r then f r else x)" by simp
qed

lemma filter_replace_single:
  assumes "filter P xs = [r]" and "P r'"
  shows "filter P (map (\<lambda>x. if x = r then r' else x) xs) = [r']"
  using assms
proof (induction xs)
  case Nil
  then show ?case by simp
next
  case (Cons x xs)
  show ?case
  proof (cases "P x")
    case True
    with Cons.prems have xr: "x = r" and rest: "filter P xs = []" by auto
    from rest have "\<And>y. y \<in> set xs \<Longrightarrow> \<not> P y" by (simp add: filter_empty_conv)
    then have "filter P (map (\<lambda>x. if x = r then r' else x) xs) = []"
      using rest Cons.prems(1) True xr by (auto simp: filter_empty_conv)
    with xr Cons.prems(2) show ?thesis by simp
  next
    case False
    with Cons.prems have f: "filter P xs = [r]" by simp
    then have "r \<in> set (filter P xs)" by simp
    then have "P r" by simp
    with False have "x \<noteq> r" by auto
    with Cons.IH[OF f Cons.prems(2)] False show ?thesis by simp
  qed
qed

lemma set_columns_id: "col_id (set_columns now p r) = col_id r"
  by (simp add: set_columns_def)

lemma primary_key_ok_updateTool: "primary_key_ok w \<Longrightarrow> primary_key_ok (updateTool i p w)"
proof -
  have ids: "map col_id (map (\<lambda>r. if col_id r = i then set_columns (CURRENT_TIMESTAMP w) p r else r) (ai_tools w)) = map col_id (ai_tools w)"
    by (simp add: set_columns_id)
  assume "primary_key_ok w"
  then show ?thesis
    unfolding primary_key_ok_def updateTool_def using ids
    by (auto simp: list_all_iff set_columns_id simp del: map_map)
qed

lemma primary_key_ok_insertTool: "primary_key_ok w \<Longrightarrow> primary_key_ok (snd (insertTool t w))"
  by (fastforce simp: primary_key_ok_def insertTool_def Let_def list_all_iff)

lemma primary_key_ok_clock: "primary_key_ok (w\<lparr>now_ms := t\<rparr>) = primary_key_ok w"
  by (simp add: primary_key_ok_def)

lemma store_tool_miss:
  assumes "url t = Some u" and "rows_with_url u w = []"
  shows "\<exists>r. rows_with_url u (snd (store_tool t (v, w))) = [r] \<and>
             col_first_discovered r = CURRENT_TIMESTAMP w \<and> col_last_updated r = CURRENT_TIMESTAMP w \<and>
             col_id r = Suc (ai_tools_seq w)"
    and "fst (store_tool t (v, w)) = v\<lparr>v_tools := v_tools v @ [t], v_discovered := Suc (v_discovered v)\<rparr>"
  using assms
  by (simp_all add: store_tool_def getToolByUrl_def find_filter rows_with_url_def insertTool_def Let_def)

lemma store_tool_hit:
  assumes pk: "primary_key_ok w" and u: "url t = Some u" and one: "rows_with_url u w = [r]"
  shows "rows_with_url u (snd (store_tool t (v, w))) = [set_columns (CURRENT_TIMESTAMP w) (as_partial t) r]"
    and "fst (store_tool t (v, w)) = v\<lparr>v_tools := v_tools v @ [t], v_updated := Suc (v_updated v)\<rparr>"
proof -
  let ?P = "\<lambda>r. col_url r = Some u"
  let ?f = "set_columns (CURRENT_TIMESTAMP w) (as_partial t)"
  from one have f: "filter ?P (ai_tools w) = [r]" by (simp add: rows_with_url_def)
  then have "r \<in> set (filter ?P (ai_tools w))" by simp
  then have rin: "r \<in> set (ai_tools w)" by simp
  from f have hit: "getToolByUrl u w = Some (parseToolRow r)"
    by (simp add: getToolByUrl_def find_filter)
  have idr: "id' (parseToolRow r) = Some (col_id r)" by (simp add: parseToolRow_def)
  from pk have d: "distinct (map col_id (ai_tools w))" by (simp add: primary_key_ok_def)
  have Pf: "?P (?f r)" using u by (simp add: set_columns_def as_partial_def)
  have "ai_tools (updateTool (col_id r) (as_partial t) w) = map (\<lambda>x. if x = r then ?f r else x) (ai_tools w)"
    unfolding updateTool_def using map_at_key[OF d rin, of ?f] by simp
  then have "rows_with_url u (updateTool (col_id r) (as_partial t) w) = [?f r]"
    using filter_replace_single[OF f Pf] by (simp add: rows_with_url_def)
  then show "rows_with_url u (snd (store_tool t (v, w))) = [?f r]"
    using u hit idr by (simp add: store_tool_def)
  show "fst (store_tool t (v, w)) = v\<lparr>v_tools := v_tools v @ [t], v_updated := Suc (v_updated v)\<rparr>"
    using u hit idr by (simp add: store_tool_def)
qed

lemma primary_key_ok_store_tool: "primary_key_ok w \<Longrightarrow> primary_key_ok (snd (store_tool t (v, w)))"
  by (auto simp: store_tool_def primary_key_ok_updateTool primary_key_ok_insertTool split: option.splits)

lemma set_columns_stamps:
  "col_first_discovered (set_columns now p r) = col_first_discovered r"
  "col_last_updated (set_columns now p r) = now"
  by (simp_all add: set_columns_def)

lemma store_tool_first:
  assumes pk: "primary_key_ok w" and u: "url t = Some u" and le: "length (rows_with_url u w) \<le> 1"
  shows "\<exists>r. rows_with_url u (snd (store_tool t (v, w))) = [r] \<and> col_last_updated r = CURRENT_TIMESTAMP w"
proof (cases "rows_with_url u w")
  case Nil
  from store_tool_miss(1)[OF u Nil, of v] show ?thesis by blast
next
  case (Cons r rs)
  with le have "rows_with_url u w = [r]" by simp
  from store_tool_hit(1)[OF pk u this, of v] show ?thesis by (simp add: set_columns_stamps)
qed

text \<open>
  The adapter flow keeps the store free of duplicate urls: starting from unique row ids
  and at most one row per url, it never produces a second row for any url.
\<close>

lemma filter_replace_other:
  assumes "\<not> P r" and "\<not> P r'"
  shows "filter P (map (\<lambda>x. if x = r then r' else x) xs) = filter P xs"
  using assms by (induction xs) auto

lemma store_tool_other_url:
  assumes pk: "primary_key_ok w" and u: "url t \<noteq> Some u"
  shows "rows_with_url u (snd (store_tool t (v, w))) = rows_with_url u w"
proof (cases "case url t of None \<Rightarrow> None | Some u0 \<Rightarrow> getToolByUrl u0 w")
  case None
  then have "snd (store_tool t (v, w)) = snd (insertTool t w)"
    by (simp add: store_tool_def)
  with u show ?thesis
    by (simp add: rows_with_url_def insertTool_def Let_def)
next
  case (Some existing)
  then obtain u0 where u0: "url t = Some u0" and g: "getToolByUrl u0 w = Some existing"
    by (auto split: option.splits)
  from g obtain r where r: "find (\<lambda>r. col_url r = Some u0) (ai_tools w) = Some r"
    and ex: "existing = parseToolRow r"
    by (auto simp: getToolByUrl_def)
  from r have rin: "r \<in> set (ai_tools w)" and ru: "col_url r = Some u0"
    by (auto simp: find_Some_iff)
  let ?f = "set_columns (CURRENT_TIMESTAMP w) (as_partial t)"
  from pk have d: "distinct (map col_id (ai_tools w))" by (simp add: primary_key_ok_def)
  have w': "snd (store_tool t (v, w)) = updateTool (col_id r) (as_partial t) w"
    using u0 g ex by (simp add: store_tool_def parseToolRow_def)
  have m: "ai_tools (updateTool (col_id r) (as_partial t) w) =
           map (\<lambda>x. if x = r then ?f r else x) (ai_tools w)"
    unfolding updateTool_def using map_at_key[OF d rin, of ?f] by simp
  have n1: "\<not> col_url r = Some u" using ru u u0 by simp
  have n2: "\<not> col_url (?f r) = Some u" using u u0 by (simp add: set_columns_def as_partial_def)
  show ?thesis
    unfolding w' rows_with_url_def m
    using filter_replace_other[of "\<lambda>r. col_url r = Some u" r "?f r", OF n1 n2] by simp
qed

lemma store_tool_keeps_urls_unique:
  assumes pk: "primary_key_ok w" and uq: "\<And>u. length (rows_with_url u w) \<le> 1"
  shows "length (rows_with_url u (snd (store_tool t (v, w)))) \<le> 1"
proof (cases "url t = Some u")
  case True
  from store_tool_first[OF pk True uq, of v] show ?thesis by auto
next
  case False
  from store_tool_other_url[OF pk False, of v] uq show ?thesis by simp
qed


lemma store_tools_keeps_urls_unique:
  assumes "primary_key_ok (snd vw)" and "\<And>u. length (rows_with_url u (snd vw)) \<le> 1"
  shows "primary_key_ok (snd (store_tools ts vw)) \<and>
         (\<forall>u. length (rows_with_url u (snd (store_tools ts vw))) \<le> 1)"
  using assms
proof (induction ts arbitrary: vw)
  case Nil
  then show ?case by simp
next
  case (Cons t ts)
  obtain v w where vw: "vw = (v, w)" by (cases vw)
  from Cons.prems have pk: "primary_key_ok w" and uq: "\<And>u. length (rows_with_url u w) \<le> 1"
    by (simp_all add: vw)
  have "primary_key_ok (snd (store_tool t (v, w)))"
    by (rule primary_key_ok_store_tool[OF pk])
  moreover have "\<And>u. length (rows_with_url u (snd (store_tool t (v, w)))) \<le> 1"
    by (rule store_tool_keeps_urls_unique[OF pk uq])
  ultimately show ?case
    using Cons.IH[of "store_tool t (v, w)"] by (simp add: vw)
qed

lemma rows_with_url_clock: "rows_with_url u (w\<lparr>now_ms := t\<rparr>) = rows_with_url u w"
  by (simp add: rows_with_url_def)

lemma urls_unique_empty: "urls_unique (empty_world t)"
  by (simp add: urls_unique_def primary_key_ok_def rows_with_url_def empty_world_def)

lemma urls_unique_clock: "urls_unique (w\<lparr>now_ms := t\<rparr>) = urls_unique w"
  by (simp add: urls_unique_def primary_key_ok_clock rows_with_url_clock)

lemma urls_unique_store_tool: "urls_unique w \<Longrightarrow> urls_unique (snd (store_tool t (v, w)))"
  unfolding urls_unique_def
  using primary_key_ok_store_tool store_tool_keeps_urls_unique by blast

lemma set_columns_description:
  "col_description (set_columns now (as_partial t) r) =
     (case description t of None \<Rightarrow> col_description r | Some d \<Rightarrow> Some d)"
  by (simp add: set_columns_def as_partial_def)

text \<open>
  Claim C1 (upsert by url is idempotent). The adapters keep the store in a state where
  row ids are unique and no url is stored twice; a new database is in that state. In
  such a store, storing a tool with url \<open>u\<close> twice through the adapter flow
  (\<open>getToolByUrl\<close>, then \<open>updateTool\<close> on a hit and \<open>insertTool\<close> on a miss) leaves
  exactly one row for \<open>u\<close>. The second survey, made when the clock reads \<open>later\<close>, is
  an update of that row: it counts as updated, the row's id and \<open>first_discovered\<close>
  are unchanged, its description is the one of the second survey when that has one,
  and \<open>last_updated\<close> moves from the time of the first survey to the time of the
  second.
\<close>

theorem upsert_by_url_idempotent:
  assumes uq: "urls_unique w0" and u1: "url t1 = Some u" and u2: "url t2 = Some u"
  shows "(\<exists>r1 r2.
            rows_with_url u (snd (store_tool t1 (v1, w0))) = [r1] \<and>
            rows_with_url u
              (snd (store_tool t2 (v2, (snd (store_tool t1 (v1, w0)))\<lparr>now_ms := later\<rparr>))) = [r2] \<and>
            col_id r2 = col_id r1 \<and>
            col_first_discovered r2 = col_first_discovered r1 \<and>
            col_description r2 =
              (case description t2 of None \<Rightarrow> col_description r1 | Some d \<Rightarrow> Some d) \<and>
            col_last_updated r1 = now_ms w0 div 1000 \<and>
            col_last_updated r2 = later div 1000) \<and>
         v_updated
           (fst (store_tool t2 (v2, (snd (store_tool t1 (v1, w0)))\<lparr>now_ms := later\<rparr>))) =
           Suc (v_updated v2) \<and>
         v_discovered
           (fst (store_tool t2 (v2, (snd (store_tool t1 (v1, w0)))\<lparr>now_ms := later\<rparr>))) =
           v_discovered v2 \<and>
         urls_unique
           (snd (store_tool t2 (v2, (snd (store_tool t1 (v1, w0)))\<lparr>now_ms := later\<rparr>)))"
proof -
  let ?w1 = "snd (store_tool t1 (v1, w0))"
  let ?w1' = "?w1\<lparr>now_ms := later\<rparr>"
  from uq have pk: "primary_key_ok w0" and le: "length (rows_with_url u w0) \<le> 1"
    by (simp_all add: urls_unique_def)
  from store_tool_first[OF pk u1 le, of v1] obtain r1 where
    r1: "rows_with_url u ?w1 = [r1]" and l1: "col_last_updated r1 = CURRENT_TIMESTAMP w0" by blast
  have uq1: "urls_unique ?w1'"
    using urls_unique_store_tool[OF uq] by (simp add: urls_unique_clock)
  then have pk1: "primary_key_ok ?w1'" by (simp add: urls_unique_def)
  have r1': "rows_with_url u ?w1' = [r1]" using r1 by (simp add: rows_with_url_clock)
  note hit = store_tool_hit[OF pk1 u2 r1', of v2]
  have rows: "\<exists>r1 r2.
            rows_with_url u ?w1 = [r1] \<and>
            rows_with_url u (snd (store_tool t2 (v2, ?w1'))) = [r2] \<and>
            col_id r2 = col_id r1 \<and>
            col_first_discovered r2 = col_first_discovered r1 \<and>
            col_description r2 =
              (case description t2 of None \<Rightarrow> col_description r1 | Some d \<Rightarrow> Some d) \<and>
            col_last_updated r1 = now_ms w0 div 1000 \<and>
            col_last_updated r2 = later div 1000"
    using r1 l1 hit(1)
    by (simp add: set_columns_stamps set_columns_id set_columns_description
          CURRENT_TIMESTAMP_def)
  from hit(2) have counts:
    "v_updated (fst (store_tool t2 (v2, ?w1'))) = Suc (v_updated v2)"
    "v_discovered (fst (store_tool t2 (v2, ?w1'))) = v_discovered v2"
    by simp_all
  from rows counts urls_unique_store_tool[OF uq1, of t2 v2] show ?thesis by blast
qed

text \<open>
  Witness for claim C1: tool \<open>A\<close> of url \<open>https://x/y\<close>, surveyed into an empty store
  at second 1 and again, with a new description, at second 5.
\<close>

theorem upsert_by_url_idempotent_witness:
  "urls_unique (empty_world 1000) \<and>
   url tool_A = Some ''https://x/y'' \<and> url tool_A' = Some ''https://x/y'' \<and>
   (\<exists>r1 r2.
      rows_with_url ''https://x/y'' (snd (store_tool tool_A (initial_vars, empty_world 1000))) = [r1] \<and>
      rows_with_url ''https://x/y''
        (snd (store_tool tool_A' (initial_vars,
               (snd (store_tool tool_A (initial_vars, empty_world 1000)))\<lparr>now_ms := 5000\<rparr>))) = [r2] \<and>
      col_id r2 = col_id r1 \<and>
      col_first_discovered r2 = col_first_discovered r1 \<and>
      col_description r2 = Some ''second description'' \<and>
      col_last_updated r1 = 1 \<and> col_last_updated r2 = 5)"
proof -
  have uq: "urls_unique (empty_world 1000)" by (rule urls_unique_empty)
  have u1: "url tool_A = Some ''https://x/y''" by (simp add: tool_A_def)
  have u2: "url tool_A' = Some ''https://x/y''" by (simp add: tool_A'_def tool_A_def)
  have t: "now_ms (empty_world 1000) div 1000 = 1" "(5000::int) div 1000 = 5"
    by (simp_all add: empty_world_def)
  have d: "description tool_A' = Some ''second description''" by (simp add: tool_A'_def)
  from upsert_by_url_idempotent[OF uq u1 u2, of initial_vars initial_vars 5000, THEN conjunct1]
  obtain r1 r2 where
    "rows_with_url ''https://x/y'' (snd (store_tool tool_A (initial_vars, empty_world 1000))) = [r1]"
    "rows_with_url ''https://x/y''
        (snd (store_tool tool_A' (initial_vars,
               (snd (store_tool tool_A (initial_vars, empty_world 1000)))\<lparr>now_ms := 5000\<rparr>))) = [r2]"
    "col_id r2 = col_id r1" "col_first_discovered r2 = col_first_discovered r1"
    "col_description r2 = Some ''second description''"
    "col_last_updated r1 = 1" "col_last_updated r2 = 5"
    unfolding t d by auto
  with uq u1 u2 show ?thesis by blast
qed

section \<open>Properties of \<open>fetchWithRetry\<close>\<close>

lemma fetch_loop_exhausted:
  "\<not> i < m \<Longrightarrow> fetch_loop net m i l =
     ([], Inl (case l of Some e \<Rightarrow> e | None \<Rightarrow> Error ''Unknown error during fetch''))"
  by (subst fetch_loop.simps) simp

lemma fetch_loop_ok:
  "i < m \<Longrightarrow> net i = Resolved r \<Longrightarrow> ok r \<Longrightarrow> fetch_loop net m i l = ([Fetch i], Inr r)"
  by (subst fetch_loop.simps) simp

lemma fetch_loop_429:
  "i < m \<Longrightarrow> net i = Resolved r \<Longrightarrow> \<not> ok r \<Longrightarrow> status r = 429 \<Longrightarrow>
   fetch_loop net m i l =
     prepend [Fetch i, Sleep (rate_limit_wait i r)] (fetch_loop net m (Suc i) l)"
  by (subst fetch_loop.simps) simp

lemma fetch_loop_thrown:
  "i < m \<Longrightarrow> thrown (net i) = Some e \<Longrightarrow>
   fetch_loop net m i l = prepend (Fetch i # backoff m i) (fetch_loop net m (Suc i) (Some e))"
  by (subst fetch_loop.simps) (auto simp: thrown_def split: fetch_outcome.splits if_splits)

lemma attempts_simps [simp]:
  "attempts [] = []"
  "attempts (Fetch i # evs) = i # attempts evs"
  "attempts (Sleep x # evs) = attempts evs"
  "attempts (xs @ ys) = attempts xs @ attempts ys"
  by (simp_all add: attempts_def)

lemma attempts_backoff [simp]: "attempts (backoff m i) = []"
  by (simp add: backoff_def)

lemma prepend_simps [simp]:
  "fst (prepend evs r) = evs @ fst r" "snd (prepend evs r) = snd r"
  by (simp_all add: prepend_def)

text \<open>One iteration that does not succeed.\<close>

lemma fetch_loop_step:
  assumes "i < m" and "\<not> succeeds (net i)"
  shows "\<exists>evs. fetch_loop net m i l =
            prepend (Fetch i # evs)
              (fetch_loop net m (Suc i) (case thrown (net i) of Some e \<Rightarrow> Some e | None \<Rightarrow> l)) \<and>
            attempts evs = []"
proof (cases "thrown (net i)")
  case (Some e)
  with fetch_loop_thrown[where net=net and i=i and m=m and e=e and l=l] assms(1) show ?thesis by auto
next
  case None
  with assms(2) obtain r where r: "net i = Resolved r" "\<not> ok r" "status r = 429"
    by (auto simp: thrown_def succeeds_def split: fetch_outcome.splits if_splits)
  from fetch_loop_429[where net=net and i=i and m=m and r=r and l=l] assms(1) r None show ?thesis by auto
qed

lemma thrown_errors_step:
  "i < m \<Longrightarrow> thrown_errors net i m =
     (case thrown (net i) of None \<Rightarrow> thrown_errors net (Suc i) m
      | Some e \<Rightarrow> e # thrown_errors net (Suc i) m)"
  by (simp add: thrown_errors_def upt_conv_Cons List.map_filter_simps split: option.splits)

lemma fetch_loop_all_fail:
  assumes "\<forall>j. i \<le> j \<and> j < m \<longrightarrow> \<not> succeeds (net j)"
  shows "attempts (fst (fetch_loop net m i l)) = [i..<m] \<and>
         snd (fetch_loop net m i l) = Inl (surfaced (thrown_errors net i m) l)"
  using assms
proof (induction "m - i" arbitrary: i l)
  case 0
  then have "\<not> i < m" by simp
  then show ?case by (simp add: fetch_loop_exhausted surfaced_def thrown_errors_def List.map_filter_simps)
next
  case (Suc n)
  then have lt: "i < m" and n: "n = m - Suc i" by simp_all
  from Suc.prems lt have ns: "\<not> succeeds (net i)" by simp
  let ?l' = "case thrown (net i) of Some e \<Rightarrow> Some e | None \<Rightarrow> l"
  from fetch_loop_step[where net=net and i=i and m=m and l=l] lt ns obtain evs where
    st: "fetch_loop net m i l = prepend (Fetch i # evs) (fetch_loop net m (Suc i) ?l')"
    and ev: "attempts evs = []" by blast
  have rest: "\<forall>j. Suc i \<le> j \<and> j < m \<longrightarrow> \<not> succeeds (net j)" using Suc.prems by simp
  note IH = Suc.hyps(1)[OF n rest, of ?l']
  have u: "[i..<m] = i # [Suc i..<m]" using lt by (rule upt_conv_Cons)
  have s: "surfaced (thrown_errors net (Suc i) m) ?l' = surfaced (thrown_errors net i m) l"
    by (simp add: thrown_errors_step[OF lt] surfaced_def split: option.splits)
  show ?case
    unfolding st u using ev IH s by simp
qed

lemma fetch_loop_attempts_le: "length (attempts (fst (fetch_loop net m i l))) \<le> m - i"
proof (induction "m - i" arbitrary: i l)
  case 0
  then have "\<not> i < m" by simp
  then show ?case by (simp add: fetch_loop_exhausted)
next
  case (Suc n)
  then have lt: "i < m" and n: "n = m - Suc i" by simp_all
  show ?case
  proof (cases "succeeds (net i)")
    case True
    then obtain r where "net i = Resolved r" "ok r"
      by (auto simp: succeeds_def split: fetch_outcome.splits)
    with lt show ?thesis by (simp add: fetch_loop_ok)
  next
    case False
    from fetch_loop_step[where net=net and i=i and m=m and l=l] lt False obtain evs l' where
      st: "fetch_loop net m i l = prepend (Fetch i # evs) (fetch_loop net m (Suc i) l')"
      and ev: "attempts evs = []" by blast
    from Suc.hyps(1)[OF n, of l'] lt show ?thesis
      unfolding st using ev by simp
  qed
qed

lemma prepend_prepend: "prepend a (prepend b r) = prepend (a @ b) r"
  by (simp add: prepend_def)

lemma fetch_loop_reach:
  assumes "i \<le> k" and "k \<le> m" and "\<forall>j. i \<le> j \<and> j < k \<longrightarrow> \<not> succeeds (net j)"
  shows "\<exists>pre l'. fetch_loop net m i l = prepend pre (fetch_loop net m k l') \<and> attempts pre = [i..<k]"
  using assms
proof (induction "k - i" arbitrary: i l)
  case 0
  then have "i = k" by simp
  then have "fetch_loop net m i l = prepend [] (fetch_loop net m k l)" by (simp add: prepend_def)
  with \<open>i = k\<close> show ?case by (metis attempts_simps(1) upt_rec less_irrefl)
next
  case (Suc n)
  then have lt: "i < k" and n: "n = k - Suc i" by simp_all
  with Suc.prems have ltm: "i < m" and ns: "\<not> succeeds (net i)" by simp_all
  from fetch_loop_step[where net=net and i=i and m=m and l=l] ltm ns obtain evs l1 where
    st: "fetch_loop net m i l = prepend (Fetch i # evs) (fetch_loop net m (Suc i) l1)"
    and ev: "attempts evs = []" by blast
  have "\<forall>j. Suc i \<le> j \<and> j < k \<longrightarrow> \<not> succeeds (net j)" using Suc.prems by simp
  from Suc.hyps(1)[OF n _ \<open>k \<le> m\<close> this, of l1] lt obtain pre l' where
    r: "fetch_loop net m (Suc i) l1 = prepend pre (fetch_loop net m k l')" and a: "attempts pre = [Suc i..<k]"
    by auto
  have u: "[i..<k] = i # [Suc i..<k]" using lt by (rule upt_conv_Cons)
  have "fetch_loop net m i l = prepend ((Fetch i # evs) @ pre) (fetch_loop net m k l')"
    unfolding st r by (simp add: prepend_prepend)
  moreover have "attempts ((Fetch i # evs) @ pre) = [i..<k]" using ev a u by simp
  ultimately show ?case by blast
qed

lemma parseInt_2: "parseInt ''2'' = Some 2"
  by (simp add: parseInt_def is_space_def digit_value_def)

lemma wait_retry_after_2: "retry_after r = Some ''2'' \<Longrightarrow> rate_limit_wait i r = Some 2000"
  by (simp add: rate_limit_wait_def parseInt_2)

lemma fetch_loop_wait_after_429:
  assumes "i < m" and "\<forall>j<i. \<not> succeeds (net j)" and "net i = Resolved r" and "status r = 429"
  shows "\<exists>pre post. fst (fetchWithRetry net m) = pre @ [Fetch i, Sleep (rate_limit_wait i r)] @ post \<and>
           attempts pre = [0..<i]"
proof -
  have nok: "\<not> ok r" using assms(4) by (simp add: ok_def)
  from fetch_loop_reach[where i=0 and k=i and m=m and net=net and l=None] assms(1,2)
  obtain pre l' where
    p: "fetch_loop net m 0 None = prepend pre (fetch_loop net m i l')" and a: "attempts pre = [0..<i]"
    by auto
  have "fetch_loop net m i l' = prepend [Fetch i, Sleep (rate_limit_wait i r)] (fetch_loop net m (Suc i) l')"
    using fetch_loop_429[where net=net and i=i and m=m and r=r and l=l'] assms(1,3,4) nok by simp
  with p have "fst (fetchWithRetry net m) =
      pre @ [Fetch i, Sleep (rate_limit_wait i r)] @ fst (fetch_loop net m (Suc i) l')"
    by (simp add: fetchWithRetry_def)
  with a show ?thesis by blast
qed

text \<open>
  Claim C3 (backoff bound). With \<open>maxRetries = 3\<close>, \<open>fetchWithRetry\<close> never issues more
  than three requests; when each of the three fails for a reason other than 429 it
  issues exactly three and throws the error of the third; and when a request that is
  reached gets a 429 response with \<open>Retry-After: 2\<close>, the next thing that happens is a
  sleep of 2000 milliseconds, before any further request.
\<close>

theorem fetchWithRetry_backoff_bound:
  "length (attempts (fst (fetchWithRetry net 3))) \<le> 3 \<and>
   ((\<forall>i<3. thrown (net i) \<noteq> None) \<longrightarrow>
      attempts (fst (fetchWithRetry net 3)) = [0, 1, 2] \<and>
      (\<exists>e. thrown (net 2) = Some e \<and> snd (fetchWithRetry net 3) = Inl e)) \<and>
   (i < 3 \<and> (\<forall>j<i. \<not> succeeds (net' j)) \<and> net' i = Resolved r \<and> status r = 429 \<and>
    retry_after r = Some ''2'' \<longrightarrow>
      (\<exists>pre post. fst (fetchWithRetry net' 3) = pre @ [Fetch i, Sleep (Some 2000)] @ post \<and>
                  attempts pre = [0..<i]))"
proof -
  have A: "length (attempts (fst (fetchWithRetry net 3))) \<le> 3"
    using fetch_loop_attempts_le[of net 3 0 None] by (simp add: fetchWithRetry_def)
  have B: "attempts (fst (fetchWithRetry net 3)) = [0, 1, 2] \<and>
      (\<exists>e. thrown (net 2) = Some e \<and> snd (fetchWithRetry net 3) = Inl e)"
    if all: "\<forall>i<3. thrown (net i) \<noteq> None"
  proof -
    from all have ns: "\<forall>j. 0 \<le> j \<and> j < 3 \<longrightarrow> \<not> succeeds (net j)"
      by (auto simp: thrown_def succeeds_def split: fetch_outcome.splits)
    from all have "thrown (net 2) \<noteq> None" by simp
    then obtain e where e: "thrown (net 2) = Some e" by blast
    have u: "[0..<3] = [0, 1, 2]" by (simp add: upt_rec)
    have "thrown_errors net 0 3 \<noteq> [] \<and> last (thrown_errors net 0 3) = e"
      using e by (simp add: thrown_errors_def u List.map_filter_simps split: option.splits)
    then have "surfaced (thrown_errors net 0 3) None = e" by (simp add: surfaced_def)
    with fetch_loop_all_fail[OF ns, of None] e u show ?thesis
      by (simp add: fetchWithRetry_def)
  qed
  have C: "\<exists>pre post. fst (fetchWithRetry net' 3) = pre @ [Fetch i, Sleep (Some 2000)] @ post \<and>
                  attempts pre = [0..<i]"
    if a: "i < 3 \<and> (\<forall>j<i. \<not> succeeds (net' j)) \<and> net' i = Resolved r \<and> status r = 429 \<and>
           retry_after r = Some ''2''"
  proof -
    from a have w: "rate_limit_wait i r = Some 2000" by (simp add: wait_retry_after_2)
    from a fetch_loop_wait_after_429[of i 3 net' r] w show ?thesis by simp
  qed
  from A B C show ?thesis by blast
qed

text \<open>
  Witness for claim C3: a server that always answers 503, and one that answers 429 with
  \<open>Retry-After: 2\<close> first.
\<close>

theorem fetchWithRetry_backoff_bound_witness:
  "thrown (always_503 0) \<noteq> None \<and> thrown (always_503 1) \<noteq> None \<and>
   thrown (always_503 2) \<noteq> None \<and>
   attempts (fst (fetchWithRetry always_503 3)) = [0, 1, 2] \<and>
   snd (fetchWithRetry always_503 3) = Inl (Error ''HTTP 503: Service Unavailable'') \<and>
   limited_once 0 = Resolved \<lparr> status = 429, statusText = ''Too Many Requests'',
                                 retry_after = Some ''2'' \<rparr> \<and>
   (\<exists>pre post. fst (fetchWithRetry limited_once 3) = pre @ [Fetch 0, Sleep (Some 2000)] @ post \<and>
               attempts pre = [0..<0])"
proof -
  let ?r = "\<lparr> status = 429, statusText = ''Too Many Requests'', retry_after = Some ''2'' \<rparr>"
  have s503: "show_nat 503 = ''503''"
    by (simp add: show_nat.simps[of 503] show_nat.simps[of 50] show_nat.simps[of 5])
  have t: "\<And>i. thrown (always_503 i) = Some (Error ''HTTP 503: Service Unavailable'')"
    by (simp add: thrown_def always_503_def ok_def s503)
  then have h: "\<forall>i<3. thrown (always_503 i) \<noteq> None" by simp
  have l: "limited_once 0 = Resolved ?r" "status ?r = 429" "retry_after ?r = Some ''2''"
    by (simp_all add: limited_once_def)
  note inst = fetchWithRetry_backoff_bound[where net=always_503 and net'=limited_once and i=0 and r="?r"]
  from inst h have A: "attempts (fst (fetchWithRetry always_503 3)) = [0, 1, 2] \<and>
      (\<exists>e. thrown (always_503 2) = Some e \<and> snd (fetchWithRetry always_503 3) = Inl e)"
    by blast
  then have A': "snd (fetchWithRetry always_503 3) = Inl (Error ''HTTP 503: Service Unavailable'')"
    using t by auto
  from inst l have B: "\<exists>pre post. fst (fetchWithRetry limited_once 3) =
      pre @ [Fetch 0, Sleep (Some 2000)] @ post \<and> attempts pre = [0..<0]"
    by simp
  have h3: "thrown (always_503 0) \<noteq> None" "thrown (always_503 1) \<noteq> None"
    "thrown (always_503 2) \<noteq> None"
    using t by simp_all
  from h3 l(1) A A' B show ?thesis by blast
qed




section \<open>Properties of \<open>survey\<close> and \<open>run\<close>\<close>

lemma store_tool_vars:
  "v_tools (fst (store_tool t (v, w))) = v_tools v @ [t]"
  "v_errors (fst (store_tool t (v, w))) = v_errors v"
  "v_discovered (fst (store_tool t (v, w))) + v_updated (fst (store_tool t (v, w))) =
     Suc (v_discovered v + v_updated v)"
  by (simp_all add: store_tool_def split: option.splits)

lemma store_tools_vars:
  "v_tools (fst (store_tools ts vw)) = v_tools (fst vw) @ ts \<and>
   v_errors (fst (store_tools ts vw)) = v_errors (fst vw) \<and>
   v_discovered (fst (store_tools ts vw)) + v_updated (fst (store_tools ts vw)) =
     v_discovered (fst vw) + v_updated (fst vw) + length ts"
proof (induction ts arbitrary: vw)
  case Nil
  then show ?case by simp
next
  case (Cons t ts)
  obtain v w where vw: "vw = (v, w)" by (cases vw)
  show ?case
    using Cons.IH[of "store_tool t (v, w)"] store_tool_vars[of t v w]
    by (simp add: vw)
qed

lemma survey_loop_vars:
  "v_tools (fst (survey_loop delay search topics vw)) = v_tools (fst vw) @ found_tools search topics \<and>
   v_errors (fst (survey_loop delay search topics vw)) =
     v_errors (fst vw) @ failure_messages search topics \<and>
   v_discovered (fst (survey_loop delay search topics vw)) +
   v_updated (fst (survey_loop delay search topics vw)) =
     v_discovered (fst vw) + v_updated (fst vw) + length (found_tools search topics)"
proof (induction topics arbitrary: vw)
  case Nil
  then show ?case by (simp add: found_tools_def failure_messages_def)
next
  case (Cons topic topics)
  let ?w = "sleep (fst (search topic)) (sleep delay (snd vw))"
  show ?case
  proof (cases "snd (search topic)")
    case (Inl e)
    with Cons.IH[of "((fst vw)\<lparr>v_errors := v_errors (fst vw) @ [topic @ '': '' @ message e]\<rparr>, ?w)"]
    show ?thesis by (simp add: found_tools_def failure_messages_def Let_def)
  next
    case (Inr found)
    with Cons.IH[of "store_tools found (fst vw, ?w)"] store_tools_vars[of found "(fst vw, ?w)"]
    show ?thesis by (simp add: found_tools_def failure_messages_def Let_def)
  qed
qed

lemma length_failure_messages:
  "length (failure_messages search topics) = length (failed_topics search topics)"
  by (induction topics) (auto simp: failure_messages_def failed_topics_def split: sum.splits)

text \<open>
  In the loop over query dimensions that the GitHub, YouTube and arXiv adapters share, a
  search that throws costs its own dimension only: \<open>survey\<close> returns, the returned
  tools are exactly those of the dimensions whose search returned,
  \<open>discovered + updated\<close> is their number, and \<open>errors\<close> holds exactly one message for
  each dimension whose search threw. The HuggingFace adapter keeps both of its searches
  in one \<open>try\<close> block: its \<open>survey\<close> returns with at most one message, the models are
  stored when only the search for spaces throws, and nothing is stored when the search
  for models throws.
\<close>

lemma survey_isolation:
  "tools (result_of (fst (survey_loop delay search topics (initial_vars, w)))) =
     found_tools search topics \<and>
   st_discovered (stats (result_of (fst (survey_loop delay search topics (initial_vars, w))))) +
   st_updated (stats (result_of (fst (survey_loop delay search topics (initial_vars, w))))) =
     length (found_tools search topics) \<and>
   errors (result_of (fst (survey_loop delay search topics (initial_vars, w)))) =
     failure_messages search topics \<and>
   st_errors (stats (result_of (fst (survey_loop delay search topics (initial_vars, w))))) =
     length (failed_topics search topics) \<and>
   fst (GitHubSurveyor_survey search w) =
     result_of (fst (survey_loop 1000 search GitHub_topics (initial_vars, w))) \<and>
   fst (ArXivSurveyor_survey search w) =
     result_of (fst (survey_loop 3000 search ArXiv_categories (initial_vars, w))) \<and>
   fst (YouTubeSurveyor_survey (Some (k # key)) searchVideos w) =
     result_of (fst (survey_loop 1000 (\<lambda>query. searchVideos query (k # key))
                       YouTube_searchQueries (initial_vars, w))) \<and>
   length (errors (fst (HuggingFaceSurveyor_survey surveyModels surveySpaces w))) \<le> 1 \<and>
   (case snd surveyModels of
      Inl e \<Rightarrow>
        fst (HuggingFaceSurveyor_survey surveyModels surveySpaces w) =
          \<lparr> tools = [], stats = \<lparr> st_discovered = 0, st_updated = 0, st_errors = 1 \<rparr>,
            errors = [message e] \<rparr> \<and>
        ai_tools (snd (HuggingFaceSurveyor_survey surveyModels surveySpaces w)) = ai_tools w
    | Inr models \<Rightarrow>
        (case snd surveySpaces of
           Inl e \<Rightarrow>
             tools (fst (HuggingFaceSurveyor_survey surveyModels surveySpaces w)) = models \<and>
             errors (fst (HuggingFaceSurveyor_survey surveyModels surveySpaces w)) = [message e]
         | Inr spaces \<Rightarrow>
             tools (fst (HuggingFaceSurveyor_survey surveyModels surveySpaces w)) = models @ spaces \<and>
             errors (fst (HuggingFaceSurveyor_survey surveyModels surveySpaces w)) = []))"
proof -
  have L: "tools (result_of (fst (survey_loop delay search topics (initial_vars, w)))) =
     found_tools search topics \<and>
   st_discovered (stats (result_of (fst (survey_loop delay search topics (initial_vars, w))))) +
   st_updated (stats (result_of (fst (survey_loop delay search topics (initial_vars, w))))) =
     length (found_tools search topics) \<and>
   errors (result_of (fst (survey_loop delay search topics (initial_vars, w)))) =
     failure_messages search topics \<and>
   st_errors (stats (result_of (fst (survey_loop delay search topics (initial_vars, w))))) =
     length (failed_topics search topics)"
    using survey_loop_vars[of delay search topics "(initial_vars, w)"]
    by (simp add: result_of_def initial_vars_def length_failure_messages)
  have G: "fst (GitHubSurveyor_survey search w) =
     result_of (fst (survey_loop 1000 search GitHub_topics (initial_vars, w)))"
    by (simp add: GitHubSurveyor_survey_def Let_def)
  have A: "fst (ArXivSurveyor_survey search w) =
     result_of (fst (survey_loop 3000 search ArXiv_categories (initial_vars, w)))"
    by (simp add: ArXivSurveyor_survey_def Let_def)
  have Y: "fst (YouTubeSurveyor_survey (Some (k # key)) searchVideos w) =
     result_of (fst (survey_loop 1000 (\<lambda>query. searchVideos query (k # key))
                       YouTube_searchQueries (initial_vars, w)))"
    by (simp add: YouTubeSurveyor_survey_def Let_def)
  have sm: "\<And>models. v_tools (fst (store_tools models (initial_vars, sleep (fst surveyModels) w))) = models
          \<and> v_errors (fst (store_tools models (initial_vars, sleep (fst surveyModels) w))) = []"
    using store_tools_vars by (simp add: initial_vars_def)
  have H: "(case snd surveyModels of
      Inl e \<Rightarrow>
        fst (HuggingFaceSurveyor_survey surveyModels surveySpaces w) =
          \<lparr> tools = [], stats = \<lparr> st_discovered = 0, st_updated = 0, st_errors = 1 \<rparr>,
            errors = [message e] \<rparr> \<and>
        ai_tools (snd (HuggingFaceSurveyor_survey surveyModels surveySpaces w)) = ai_tools w
    | Inr models \<Rightarrow>
        (case snd surveySpaces of
           Inl e \<Rightarrow>
             tools (fst (HuggingFaceSurveyor_survey surveyModels surveySpaces w)) = models \<and>
             errors (fst (HuggingFaceSurveyor_survey surveyModels surveySpaces w)) = [message e]
         | Inr spaces \<Rightarrow>
             tools (fst (HuggingFaceSurveyor_survey surveyModels surveySpaces w)) = models @ spaces \<and>
             errors (fst (HuggingFaceSurveyor_survey surveyModels surveySpaces w)) = []))"
    using sm store_tools_vars
    by (simp add: HuggingFaceSurveyor_survey_def Let_def result_of_def initial_vars_def sleep_def
          split: sum.splits)
  then have H1: "length (errors (fst (HuggingFaceSurveyor_survey surveyModels surveySpaces w))) \<le> 1"
    by (auto split: sum.splits)
  from L G A Y H H1 show ?thesis by simp
qed

text \<open>
  Claim C4 (per-dimension failure isolation) is what the GitHub, YouTube and arXiv
  adapters do, and what the HuggingFace adapter misses: when its search for models
  throws, its search for spaces, which would have found tool \<open>A\<close>, is never made, and
  \<open>survey\<close> returns no tool, counts nothing and stores nothing, with one error message.
  The loop of the other adapters, given the same two dimensions, returns tool \<open>A\<close>.
\<close>

theorem huggingface_models_failure_skips_spaces:
  "snd models_down = Inl (Error ''HTTP 500: Internal Server Error'') \<and>
   snd one_space = Inr [tool_A] \<and>
   tools (fst (HuggingFaceSurveyor_survey models_down one_space (empty_world 1000))) = [] \<and>
   stats (fst (HuggingFaceSurveyor_survey models_down one_space (empty_world 1000))) =
     \<lparr> st_discovered = 0, st_updated = 0, st_errors = 1 \<rparr> \<and>
   errors (fst (HuggingFaceSurveyor_survey models_down one_space (empty_world 1000))) =
     [''HTTP 500: Internal Server Error''] \<and>
   ai_tools (snd (HuggingFaceSurveyor_survey models_down one_space (empty_world 1000))) = [] \<and>
   tools (result_of (fst (survey_loop 1000 models_then_spaces [''models'', ''spaces'']
                            (initial_vars, empty_world 1000)))) = [tool_A] \<and>
   stats (result_of (fst (survey_loop 1000 models_then_spaces [''models'', ''spaces'']
                            (initial_vars, empty_world 1000)))) =
     \<lparr> st_discovered = 1, st_updated = 0, st_errors = 1 \<rparr>"
  by code_simp

text \<open>Three dimensions of which the second throws.\<close>

lemma survey_isolation_example:
  "tools (result_of (fst (survey_loop 1000 second_of_three [''one'', ''two'', ''three'']
                            (initial_vars, empty_world 1000)))) = [tool_A, tool_B] \<and>
   st_discovered (stats (result_of (fst (survey_loop 1000 second_of_three [''one'', ''two'', ''three'']
                            (initial_vars, empty_world 1000))))) +
   st_updated (stats (result_of (fst (survey_loop 1000 second_of_three [''one'', ''two'', ''three'']
                            (initial_vars, empty_world 1000))))) = 2 \<and>
   errors (result_of (fst (survey_loop 1000 second_of_three [''one'', ''two'', ''three'']
                            (initial_vars, empty_world 1000)))) =
     [''two: HTTP 500: Internal Server Error'']"
proof -
  have f: "found_tools second_of_three [''one'', ''two'', ''three''] = [tool_A, tool_B]"
    by (simp add: found_tools_def second_of_three_def)
  have m: "failure_messages second_of_three [''one'', ''two'', ''three''] =
             [''two: HTTP 500: Internal Server Error'']"
    by (simp add: failure_messages_def second_of_three_def)
  from survey_isolation[where delay=1000 and search=second_of_three
         and topics="[''one'', ''two'', ''three'']" and w="empty_world 1000"]
  show ?thesis unfolding f m by simp
qed

lemma logSurveyRun_rows:
  "survey_runs (snd (logSurveyRun r w)) =
     survey_runs w @
       [\<lparr> sr_id = Suc (survey_runs_seq w), sr_run_time = CURRENT_TIMESTAMP w,
          sr_source = run_source r,
          sr_items_discovered = or_default 0 0 (run_items_discovered r),
          sr_items_updated = or_default 0 0 (run_items_updated r),
          sr_status = run_status r, sr_error_log = run_error_log r,
          sr_duration_seconds = run_duration_seconds r \<rparr>]"
  by (simp add: logSurveyRun_def Let_def)

lemma or_default_nat [simp]: "or_default 0 0 (Some (n::nat)) = n"
  by (simp add: or_default_def)

lemma run_appends_row:
  "\<exists>row. survey_runs (snd (run s w)) = survey_runs (snd (survey s w)) @ [row] \<and>
         sr_source row = sourceName s \<and>
         (case fst (survey s w) of
            Inl e \<Rightarrow> sr_status row = failed \<and> sr_items_discovered row = 0 \<and>
                     sr_items_updated row = 0 \<and> sr_error_log row = Some (message e) \<and>
                     fst (run s w) = Inl e
          | Inr r \<Rightarrow> sr_status row = (if st_errors (stats r) > 0 then partial else success) \<and>
                     sr_items_discovered row = st_discovered (stats r) \<and>
                     sr_items_updated row = st_updated (stats r) \<and>
                     fst (run s w) = Inr ())"
  by (cases "fst (survey s w)") (simp_all add: run_def Let_def logSurveyRun_rows)

text \<open>The four adapters count their errors.\<close>

lemma result_of_counts: "counts_its_errors (result_of v)"
  by (simp add: counts_its_errors_def result_of_def)

lemma adapters_count_their_errors:
  "counts_its_errors (fst (GitHubSurveyor_survey search w))"
  "counts_its_errors (fst (ArXivSurveyor_survey search w))"
  "counts_its_errors (fst (YouTubeSurveyor_survey apiKey searchVideos w))"
  "counts_its_errors (fst (HuggingFaceSurveyor_survey surveyModels surveySpaces w))"
  by (simp_all add: GitHubSurveyor_survey_def ArXivSurveyor_survey_def YouTubeSurveyor_survey_def
        HuggingFaceSurveyor_survey_def Let_def result_of_counts
        split: option.splits)
     (simp_all add: counts_its_errors_def)

text \<open>
  Claim C7 (status of the logged run). \<open>run\<close> appends exactly one row to the run log
  that \<open>survey\<close> left behind, under the adapter's source name. When \<open>survey\<close> throws,
  the status is \<open>failed\<close> and the error is rethrown. When \<open>survey\<close> returns, the row
  records the returned \<open>discovered\<close> and \<open>updated\<close> counts, and for a result that counts
  its errors the status is \<open>partial\<close> for a nonempty \<open>errors\<close> list and \<open>success\<close>
  otherwise. The results of all four adapters count their errors, whatever their
  searches do.
\<close>

theorem run_logs_one_row:
  "(\<exists>row. survey_runs (snd (run s w)) = survey_runs (snd (survey s w)) @ [row] \<and>
      sr_source row = sourceName s \<and>
      (case fst (survey s w) of
         Inl e \<Rightarrow> sr_status row = failed \<and> fst (run s w) = Inl e
       | Inr r \<Rightarrow> (counts_its_errors r \<longrightarrow>
                     sr_status row = (if errors r = [] then success else partial)) \<and>
                  sr_items_discovered row = st_discovered (stats r) \<and>
                  sr_items_updated row = st_updated (stats r) \<and>
                  fst (run s w) = Inr ())) \<and>
   counts_its_errors (fst (HuggingFaceSurveyor_survey surveyModels surveySpaces w1)) \<and>
   counts_its_errors (fst (GitHubSurveyor_survey search w2)) \<and>
   counts_its_errors (fst (YouTubeSurveyor_survey apiKey searchVideos w3)) \<and>
   counts_its_errors (fst (ArXivSurveyor_survey search' w4))"
proof -
  from run_appends_row[of s w] obtain row where
    row: "survey_runs (snd (run s w)) = survey_runs (snd (survey s w)) @ [row]"
         "sr_source row = sourceName s"
    and c: "(case fst (survey s w) of
            Inl e \<Rightarrow> sr_status row = failed \<and> sr_items_discovered row = 0 \<and>
                     sr_items_updated row = 0 \<and> sr_error_log row = Some (message e) \<and>
                     fst (run s w) = Inl e
          | Inr r \<Rightarrow> sr_status row = (if st_errors (stats r) > 0 then partial else success) \<and>
                     sr_items_discovered row = st_discovered (stats r) \<and>
                     sr_items_updated row = st_updated (stats r) \<and>
                     fst (run s w) = Inr ())"
    by blast
  have "(case fst (survey s w) of
         Inl e \<Rightarrow> sr_status row = failed \<and> fst (run s w) = Inl e
       | Inr r \<Rightarrow> (counts_its_errors r \<longrightarrow>
                     sr_status row = (if errors r = [] then success else partial)) \<and>
                  sr_items_discovered row = st_discovered (stats r) \<and>
                  sr_items_updated row = st_updated (stats r) \<and>
                  fst (run s w) = Inr ())"
  proof (cases "fst (survey s w)")
    case (Inl e)
    with c show ?thesis by simp
  next
    case (Inr r)
    with c show ?thesis by (auto simp: counts_its_errors_def)
  qed
  with row have "\<exists>row. survey_runs (snd (run s w)) = survey_runs (snd (survey s w)) @ [row] \<and>
      sr_source row = sourceName s \<and>
      (case fst (survey s w) of
         Inl e \<Rightarrow> sr_status row = failed \<and> fst (run s w) = Inl e
       | Inr r \<Rightarrow> (counts_its_errors r \<longrightarrow>
                     sr_status row = (if errors r = [] then success else partial)) \<and>
                  sr_items_discovered row = st_discovered (stats r) \<and>
                  sr_items_updated row = st_updated (stats r) \<and>
                  fst (run s w) = Inr ())"
    by blast
  then show ?thesis by (simp add: adapters_count_their_errors)
qed

text \<open>The four adapters leave the run log alone.\<close>

lemma store_tool_runs: "survey_runs (snd (store_tool t vw)) = survey_runs (snd vw)"
  by (cases vw) (simp add: store_tool_def updateTool_def insertTool_def Let_def split: option.splits)

lemma store_tools_runs: "survey_runs (snd (store_tools ts vw)) = survey_runs (snd vw)"
  by (induction ts arbitrary: vw) (simp_all add: store_tool_runs)

lemma survey_loop_runs: "survey_runs (snd (survey_loop delay search topics vw)) = survey_runs (snd vw)"
proof (induction topics arbitrary: vw)
  case Nil
  then show ?case by simp
next
  case (Cons topic topics)
  show ?case
    by (cases "snd (search topic)") (simp_all add: Cons.IH Let_def store_tools_runs sleep_def)
qed

lemma adapters_keep_run_log:
  "keeps_run_log (adapter n (GitHubSurveyor_survey search))"
  "keeps_run_log (adapter n (ArXivSurveyor_survey search))"
  "keeps_run_log (adapter n (YouTubeSurveyor_survey apiKey searchVideos))"
  "keeps_run_log (adapter n (HuggingFaceSurveyor_survey surveyModels surveySpaces))"
  by (simp_all add: keeps_run_log_def adapter_def GitHubSurveyor_survey_def
        ArXivSurveyor_survey_def YouTubeSurveyor_survey_def HuggingFaceSurveyor_survey_def
        Let_def survey_loop_runs store_tools_runs sleep_def split: option.splits sum.splits)

lemma github_quiet_survey:
  "fst (survey github_quiet w) = Inr (fst (GitHubSurveyor_survey quiet_search w))"
  "snd (survey github_quiet w) = snd (GitHubSurveyor_survey quiet_search w)"
  "sourceName github_quiet = ''github''"
  by (simp_all add: github_quiet_def adapter_def)

lemma github_quiet_errors: "errors (fst (GitHubSurveyor_survey quiet_search w)) = []"
proof -
  have "failure_messages quiet_search GitHub_topics = []"
    by (simp add: failure_messages_def quiet_search_def GitHub_topics_def)
  with survey_loop_vars[of 1000 quiet_search GitHub_topics "(initial_vars, w)"]
  show ?thesis
    by (simp add: GitHubSurveyor_survey_def Let_def result_of_def initial_vars_def)
qed

text \<open>Witness for claim C7: a GitHub adapter without errors, and an adapter that throws.\<close>

theorem run_logs_one_row_witness:
  "counts_its_errors (fst (GitHubSurveyor_survey quiet_search (empty_world 1000))) \<and>
   (\<exists>row. survey_runs (snd (run github_quiet (empty_world 1000))) = [row] \<and>
          sr_source row = ''github'' \<and> sr_status row = success \<and>
          sr_items_discovered row =
            st_discovered (stats (fst (GitHubSurveyor_survey quiet_search (empty_world 1000)))) \<and>
          fst (run github_quiet (empty_world 1000)) = Inr ()) \<and>
   (\<exists>row. survey_runs (snd (run broken_surveyor (empty_world 1000))) = [row] \<and>
          sr_source row = ''huggingface'' \<and> sr_status row = failed \<and>
          fst (run broken_surveyor (empty_world 1000)) = Inl (Error ''database is closed''))"
proof -
  let ?w = "empty_world 1000"
  let ?r = "fst (GitHubSurveyor_survey quiet_search ?w)"
  have c: "counts_its_errors ?r"
    by (rule adapters_count_their_errors)
  have l: "survey_runs (snd (GitHubSurveyor_survey quiet_search ?w)) = []"
    using adapters_keep_run_log(1)[of "''github''" quiet_search]
    by (simp add: keeps_run_log_def adapter_def empty_world_def)
  from run_logs_one_row[where s=github_quiet and w="?w", THEN conjunct1] obtain row where
    "survey_runs (snd (run github_quiet ?w)) = [row]" "sr_source row = ''github''"
    "counts_its_errors ?r \<longrightarrow> sr_status row = success"
    "sr_items_discovered row = st_discovered (stats ?r)" "fst (run github_quiet ?w) = Inr ()"
    by (auto simp: github_quiet_survey github_quiet_errors l)
  with c have A: "\<exists>row. survey_runs (snd (run github_quiet ?w)) = [row] \<and>
          sr_source row = ''github'' \<and> sr_status row = success \<and>
          sr_items_discovered row = st_discovered (stats ?r) \<and>
          fst (run github_quiet ?w) = Inr ()"
    by blast
  from run_logs_one_row[where s=broken_surveyor and w="?w", THEN conjunct1]
  have B: "\<exists>row. survey_runs (snd (run broken_surveyor ?w)) = [row] \<and>
          sr_source row = ''huggingface'' \<and> sr_status row = failed \<and>
          fst (run broken_surveyor ?w) = Inl (Error ''database is closed'')"
    by (auto simp: broken_surveyor_def empty_world_def)
  from c A B show ?thesis by blast
qed

section \<open>Properties of the orchestrator\<close>

lemma sleep_runs [simp]: "survey_runs (sleep ms w) = survey_runs w"
  by (simp add: sleep_def)





section \<open>Properties of \<open>calculatePopularityScore\<close>\<close>








section \<open>Properties of the recommendation engine\<close>






















end
